theory Spec2Isabelle
  imports Main "HOL-Library.Word" "HOL-Library.Multiset"
begin

section \<open>Strings and regular expressions of the validation layer\<close>

text \<open>
  A JavaScript string is a sequence of UTF-16 code units, and \<open>.length\<close> counts code
  units. The regular expressions of \<open>src/lib/validation.ts\<close> carry no flag, so a
  character class is matched against a single code unit.
\<close>

type_synonym code_unit = "16 word"
type_synonym js_string = "code_unit list"

definition utf16 :: "string \<Rightarrow> js_string" where
  "utf16 s = map of_char s"

text \<open>
  A character class \<open>[a-b...]\<close> or \<open>[^a-b...]\<close>: the negation flag and the list of
  inclusive ranges. \<open>\d\<close> is the class \<open>[0-9]\<close>.
\<close>

datatype char_class = CharClass bool "(code_unit \<times> code_unit) list"

fun in_ranges :: "code_unit \<Rightarrow> (code_unit \<times> code_unit) list \<Rightarrow> bool" where
  "in_ranges c [] = False"
| "in_ranges c ((lo, hi) # rs) = ((lo \<le> c \<and> c \<le> hi) \<or> in_ranges c rs)"

fun class_matches :: "char_class \<Rightarrow> code_unit \<Rightarrow> bool" where
  "class_matches (CharClass neg rs) c = (if neg then \<not> in_ranges c rs else in_ranges c rs)"

text \<open>
  The two shapes of pattern the schemas use: \<open>/[...]/\<close>, found anywhere in the input,
  and \<open>/^[...]+$/\<close>, which must cover the whole input with at least one code unit.
\<close>

datatype regex = Contains char_class | WholePlus char_class

fun search :: "char_class \<Rightarrow> js_string \<Rightarrow> bool" where
  "search cls [] = False"
| "search cls (c # cs) = (class_matches cls c \<or> search cls cs)"

fun plus_to_end :: "char_class \<Rightarrow> js_string \<Rightarrow> bool" where
  "plus_to_end cls [] = False"
| "plus_to_end cls (c # cs) = (class_matches cls c \<and> (cs = [] \<or> plus_to_end cls cs))"

fun regex_test :: "regex \<Rightarrow> js_string \<Rightarrow> bool" where
  "regex_test (Contains cls) s = search cls s"
| "regex_test (WholePlus cls) s = plus_to_end cls s"

definition upper_class :: char_class where
  "upper_class = CharClass False [(of_char CHR ''A'', of_char CHR ''Z'')]"

definition lower_class :: char_class where
  "lower_class = CharClass False [(of_char CHR ''a'', of_char CHR ''z'')]"

definition digit_class :: char_class where
  "digit_class = CharClass False [(of_char CHR ''0'', of_char CHR ''9'')]"

definition special_class :: char_class where
  "special_class = CharClass True
     [(of_char CHR ''A'', of_char CHR ''Z''), (of_char CHR ''a'', of_char CHR ''z''),
      (of_char CHR ''0'', of_char CHR ''9'')]"

section \<open>String schemas\<close>

text \<open>
  A string schema is the list of its checks in the order they were chained. Parsing runs
  every check, records an issue for each one that fails, and succeeds when there is no
  issue; the form reads the message of the first issue (\<open>error.errors[0].message\<close>).
  The pattern behind \<open>.email()\<close> belongs to the validation library, not to this
  repository, so the check carries it as a parameter.
\<close>

datatype zod_check =
    Min nat string
  | Max nat string
  | Length nat string
  | Regex regex string
  | Email "js_string \<Rightarrow> bool" string

fun check_passes :: "zod_check \<Rightarrow> js_string \<Rightarrow> bool" where
  "check_passes (Min n m) s = (\<not> length s < n)"
| "check_passes (Max n m) s = (\<not> length s > n)"
| "check_passes (Length n m) s = (\<not> (length s > n \<or> length s < n))"
| "check_passes (Regex r m) s = regex_test r s"
| "check_passes (Email e m) s = e s"

fun message :: "zod_check \<Rightarrow> string" where
  "message (Min n m) = m"
| "message (Max n m) = m"
| "message (Length n m) = m"
| "message (Regex r m) = m"
| "message (Email e m) = m"

fun issues :: "zod_check list \<Rightarrow> js_string \<Rightarrow> string list" where
  "issues [] s = []"
| "issues (c # cs) s = (if check_passes c s then issues cs s else message c # issues cs s)"

datatype parse_result = Success js_string | Failure "string list"

definition safeParse :: "zod_check list \<Rightarrow> js_string \<Rightarrow> parse_result" where
  "safeParse schema s = (case issues schema s of [] \<Rightarrow> Success s | es \<Rightarrow> Failure es)"

fun success :: "parse_result \<Rightarrow> bool" where
  "success (Success s) = True"
| "success (Failure es) = False"

text \<open>
  \<open>if (!result.success) throw new Error(result.error.errors[0].message)\<close>: the message
  thrown, if any. A failure always carries an issue; reading the message of a missing
  first issue would throw a TypeError, which is a failure too.
\<close>

fun first_message :: "parse_result \<Rightarrow> string option" where
  "first_message (Success s) = None"
| "first_message (Failure (e # es)) = Some e"
| "first_message (Failure []) = Some ''TypeError''"

definition passwordSchema :: "zod_check list" where
  "passwordSchema =
     [Min 8 ''Password must be at least 8 characters'',
      Regex (Contains upper_class) ''Password must contain at least one uppercase letter'',
      Regex (Contains lower_class) ''Password must contain at least one lowercase letter'',
      Regex (Contains digit_class) ''Password must contain at least one number'',
      Regex (Contains special_class) ''Password must contain at least one special character'']"

definition emailSchema :: "(js_string \<Rightarrow> bool) \<Rightarrow> zod_check list" where
  "emailSchema email_pattern =
     [Email email_pattern ''Please enter a valid email address'',
      Min 5 ''Email must be at least 5 characters'',
      Max 64 ''Email must not exceed 64 characters'']"

definition verificationCodeSchema :: "zod_check list" where
  "verificationCodeSchema =
     [Length 6 ''Verification code must be 6 digits'',
      Regex (WholePlus digit_class) ''Verification code must contain only numbers'']"

text \<open>The character classes in the words of the specification.\<close>

definition is_upper :: "code_unit \<Rightarrow> bool" where
  "is_upper c = (of_char CHR ''A'' \<le> c \<and> c \<le> of_char CHR ''Z'')"

definition is_lower :: "code_unit \<Rightarrow> bool" where
  "is_lower c = (of_char CHR ''a'' \<le> c \<and> c \<le> of_char CHR ''z'')"

definition is_digit :: "code_unit \<Rightarrow> bool" where
  "is_digit c = (of_char CHR ''0'' \<le> c \<and> c \<le> of_char CHR ''9'')"

definition is_alphanumeric :: "code_unit \<Rightarrow> bool" where
  "is_alphanumeric c = (is_upper c \<or> is_lower c \<or> is_digit c)"

text \<open>
  A sample email pattern, used only to run the email schema on concrete inputs: one
  \<open>@\<close> with a non-empty local part, and a domain whose last label has at least two
  code units and follows a non-empty label.
\<close>

definition sample_email_pattern :: "js_string \<Rightarrow> bool" where
  "sample_email_pattern s =
     (let at = of_char CHR ''@''; dot = of_char CHR ''.'';
          local_part = takeWhile (\<lambda>c. c \<noteq> at) s;
          domain = drop (Suc (length local_part)) s;
          tld = rev (takeWhile (\<lambda>c. c \<noteq> dot) (rev domain))
      in local_part \<noteq> [] \<and> length local_part < length s \<and> at \<notin> set domain \<and>
         2 \<le> length tld \<and> Suc (length tld) < length domain)"

section \<open>Relational schema\<close>

text \<open>
  The tables of the migration. A column without \<open>NOT NULL\<close> is an option, \<open>None\<close>
  being SQL's NULL; \<open>text\<close> columns stay strings, with their CHECK constraints as
  predicates below. Timestamps are microseconds since the epoch.
\<close>

type_synonym uuid = "128 word"
type_synonym timestamptz = int

record auth_user =
  uid :: uuid
  email :: "string option"
  raw_user_meta_data :: "(string \<times> string option) list option"

record profile =
  profile_id :: uuid
  username :: string
  full_name :: "string option"
  avatar_url :: "string option"
  bio :: "string option"
  profile_created_at :: "timestamptz option"
  profile_updated_at :: "timestamptz option"

record post =
  post_id :: uuid
  user_id :: uuid
  content :: string
  image_url :: "string option"
  privacy :: "string option"
  created_at :: "timestamptz option"
  updated_at :: "timestamptz option"

record friendship =
  friendship_id :: uuid
  sender_id :: uuid
  receiver_id :: uuid
  status :: "string option"
  friendship_created_at :: "timestamptz option"
  friendship_updated_at :: "timestamptz option"

record database =
  auth_users :: "auth_user list"
  profiles :: "profile list"
  posts :: "post list"
  friendships :: "friendship list"

datatype db_error =
    Row_security_violation
  | Not_null_violation
  | Unique_violation
  | Check_violation
  | Foreign_key_violation

subsection \<open>Three-valued logic\<close>

text \<open>
  A policy expression evaluates to true, false or NULL, and a row passes only when the
  result is true. \<open>auth.uid()\<close> is NULL for a request without identity.
\<close>

type_synonym sql_bool = "bool option"

fun sql_eq :: "'a option \<Rightarrow> 'a option \<Rightarrow> sql_bool" where
  "sql_eq (Some x) (Some y) = Some (x = y)"
| "sql_eq None y = None"
| "sql_eq x None = None"

fun sql_and :: "sql_bool \<Rightarrow> sql_bool \<Rightarrow> sql_bool" where
  "sql_and (Some False) b = Some False"
| "sql_and a (Some False) = Some False"
| "sql_and (Some True) (Some True) = Some True"
| "sql_and a b = None"

fun sql_or :: "sql_bool \<Rightarrow> sql_bool \<Rightarrow> sql_bool" where
  "sql_or (Some True) b = Some True"
| "sql_or a (Some True) = Some True"
| "sql_or (Some False) (Some False) = Some False"
| "sql_or a b = None"

text \<open>\<open>x IN (a, b, ...)\<close> is \<open>x = a OR x = b OR ...\<close>.\<close>

fun sql_in :: "'a option \<Rightarrow> 'a option list \<Rightarrow> sql_bool" where
  "sql_in x [] = Some False"
| "sql_in x [a] = sql_eq x a"
| "sql_in x (a # as) = sql_or (sql_eq x a) (sql_in x as)"

definition sql_exists :: "'a list \<Rightarrow> sql_bool" where
  "sql_exists rows = Some (rows \<noteq> [])"

definition holds :: "sql_bool \<Rightarrow> bool" where
  "holds b = (b = Some True)"

text \<open>A CHECK constraint rejects a row only when its expression is false.\<close>

definition check_ok :: "sql_bool \<Rightarrow> bool" where
  "check_ok b = (b \<noteq> Some False)"

subsection \<open>Row-level security policies\<close>

definition profiles_select_using :: "uuid option \<Rightarrow> profile \<Rightarrow> sql_bool" where
  "profiles_select_using auth_uid p = Some True"

definition profiles_update_using :: "uuid option \<Rightarrow> profile \<Rightarrow> sql_bool" where
  "profiles_update_using auth_uid p = sql_eq auth_uid (Some (profile_id p))"

definition friendships_select_using :: "uuid option \<Rightarrow> friendship \<Rightarrow> sql_bool" where
  "friendships_select_using auth_uid f =
     sql_in auth_uid [Some (sender_id f), Some (receiver_id f)]"

definition friendships_insert_check :: "uuid option \<Rightarrow> friendship \<Rightarrow> sql_bool" where
  "friendships_insert_check auth_uid f = sql_eq auth_uid (Some (sender_id f))"

definition friendships_update_using :: "uuid option \<Rightarrow> friendship \<Rightarrow> sql_bool" where
  "friendships_update_using auth_uid f =
     sql_in auth_uid [Some (sender_id f), Some (receiver_id f)]"

text \<open>
  A table read inside a policy expression is filtered by that table's own SELECT policy
  for the same requester.
\<close>

definition select_friendships :: "database \<Rightarrow> uuid option \<Rightarrow> friendship list" where
  "select_friendships db auth_uid =
     filter (\<lambda>f. holds (friendships_select_using auth_uid f)) (friendships db)"

definition posts_select_using :: "database \<Rightarrow> uuid option \<Rightarrow> post \<Rightarrow> sql_bool" where
  "posts_select_using db auth_uid p =
     sql_or
       (sql_or (sql_eq (privacy p) (Some ''public''))
               (sql_eq (Some (user_id p)) auth_uid))
       (sql_and (sql_eq (privacy p) (Some ''friends''))
          (sql_exists
             (filter
                (\<lambda>f. holds
                   (sql_and
                      (sql_or
                         (sql_and (sql_eq (Some (sender_id f)) auth_uid)
                                  (sql_eq (Some (receiver_id f)) (Some (user_id p))))
                         (sql_and (sql_eq (Some (receiver_id f)) auth_uid)
                                  (sql_eq (Some (sender_id f)) (Some (user_id p)))))
                      (sql_eq (status f) (Some ''accepted''))))
                (select_friendships db auth_uid))))"


definition posts_update_using :: "uuid option \<Rightarrow> post \<Rightarrow> sql_bool" where
  "posts_update_using auth_uid p = sql_eq auth_uid (Some (user_id p))"

definition select_posts :: "database \<Rightarrow> uuid option \<Rightarrow> post list" where
  "select_posts db auth_uid = filter (\<lambda>p. holds (posts_select_using db auth_uid p)) (posts db)"

subsection \<open>Constraints of the friendships table\<close>

definition status_check :: "friendship \<Rightarrow> bool" where
  "status_check f =
     check_ok (sql_in (status f) [Some ''pending'', Some ''accepted'', Some ''rejected''])"

definition friendships_unique :: "friendship list \<Rightarrow> bool" where
  "friendships_unique fs =
     (distinct (map friendship_id fs) \<and> distinct (map (\<lambda>f. (sender_id f, receiver_id f)) fs))"

definition friendships_references :: "database \<Rightarrow> friendship list \<Rightarrow> bool" where
  "friendships_references db fs =
     (\<forall>f \<in> set fs. sender_id f \<in> set (map profile_id (profiles db)) \<and>
                    receiver_id f \<in> set (map profile_id (profiles db)))"

definition friendships_constraints :: "database \<Rightarrow> friendship list \<Rightarrow> db_error option" where
  "friendships_constraints db fs =
     (if \<not> list_all status_check fs then Some Check_violation
      else if \<not> friendships_unique fs then Some Unique_violation
      else if \<not> friendships_references db fs then Some Foreign_key_violation
      else None)"

subsection \<open>Writes to friendships\<close>

text \<open>
  \<open>INSERT INTO friendships\<close> by a requester: the row is tested against the INSERT
  policy first, then against the table's constraints; it is appended when both pass.
\<close>

definition insert_friendship ::
  "database \<Rightarrow> uuid option \<Rightarrow> friendship \<Rightarrow> db_error + database" where
  "insert_friendship db auth_uid f =
     (if \<not> holds (friendships_insert_check auth_uid f) then Inl Row_security_violation
      else case friendships_constraints db (friendships db @ [f]) of
             Some e \<Rightarrow> Inl e
           | None \<Rightarrow> Inr (db\<lparr>friendships := friendships db @ [f]\<rparr>))"

text \<open>
  \<open>UPDATE friendships SET ... WHERE ...\<close> by a requester, the SET clause given as a
  function from the old row to the new one. A row is a target when it satisfies the
  WHERE clause and the requester passes the SELECT and UPDATE policies on it; other rows
  are left alone without an error. The rows are written one after the other, in table
  order. The UPDATE policy has no \<open>WITH CHECK\<close>, so its \<open>USING\<close> expression is
  applied to each new row first; then come the row's CHECK constraint and the unique
  indexes, which compare the new row with the other rows as they stand at that moment
  (those before it already written, those after it not yet). The first failure aborts
  the statement. The foreign keys of the new rows are checked when all rows are written.
\<close>

definition is_target :: "uuid option \<Rightarrow> (friendship \<Rightarrow> bool) \<Rightarrow> friendship \<Rightarrow> bool" where
  "is_target auth_uid wh f =
     (wh f \<and> holds (friendships_select_using auth_uid f)
           \<and> holds (friendships_update_using auth_uid f))"

definition unique_conflict :: "friendship \<Rightarrow> friendship list \<Rightarrow> bool" where
  "unique_conflict g others =
     (friendship_id g \<in> set (map friendship_id others) \<or>
      (sender_id g, receiver_id g) \<in> set (map (\<lambda>f. (sender_id f, receiver_id f)) others))"

fun update_rows ::
  "uuid option \<Rightarrow> (friendship \<Rightarrow> bool) \<Rightarrow> (friendship \<Rightarrow> friendship) \<Rightarrow> friendship list
     \<Rightarrow> friendship list \<Rightarrow> db_error + friendship list" where
  "update_rows auth_uid wh st written [] = Inr written"
| "update_rows auth_uid wh st written (f # fs) =
     (if is_target auth_uid wh f
      then (if \<not> holds (friendships_update_using auth_uid (st f))
            then Inl Row_security_violation
            else if \<not> status_check (st f) then Inl Check_violation
            else if unique_conflict (st f) (written @ fs) then Inl Unique_violation
            else update_rows auth_uid wh st (written @ [st f]) fs)
      else update_rows auth_uid wh st (written @ [f]) fs)"

definition update_friendships ::
  "database \<Rightarrow> uuid option \<Rightarrow> (friendship \<Rightarrow> bool) \<Rightarrow> (friendship \<Rightarrow> friendship)
     \<Rightarrow> db_error + database" where
  "update_friendships db auth_uid wh st =
     (case update_rows auth_uid wh st [] (friendships db) of
        Inl e \<Rightarrow> Inl e
      | Inr fs' \<Rightarrow>
          if friendships_references db (map st (filter (is_target auth_uid wh) (friendships db)))
          then Inr (db\<lparr>friendships := fs'\<rparr>)
          else Inl Foreign_key_violation)"

subsection \<open>Writes to posts\<close>



text \<open>The relation the specification calls a link between requester and owner.\<close>

definition links :: "friendship \<Rightarrow> uuid option \<Rightarrow> uuid \<Rightarrow> bool" where
  "links f requester owner =
     ((requester = Some (sender_id f) \<and> receiver_id f = owner) \<or>
      (requester = Some (receiver_id f) \<and> sender_id f = owner))"

definition visible :: "database \<Rightarrow> uuid option \<Rightarrow> post \<Rightarrow> bool" where
  "visible db requester p = holds (posts_select_using db requester p)"

subsection \<open>Registration provisioning\<close>

text \<open>
  \<open>auth.users\<close> belongs to the identity service; the migration reads its columns
  \<open>id\<close>, \<open>email\<close> and \<open>raw_user_meta_data\<close> and references its primary key. The
  metadata is a JSON object or NULL, each value given by its text (\<open>None\<close> for a JSON
  null); \<open>->>\<close> reads a key as text and is NULL when the key or the object is missing.
\<close>

definition json_get_text :: "(string \<times> string option) list option \<Rightarrow> string \<Rightarrow> string option" where
  "json_get_text obj key =
     (case obj of None \<Rightarrow> None
      | Some kvs \<Rightarrow> (case map_of kvs key of None \<Rightarrow> None | Some v \<Rightarrow> v))"

text \<open>
  \<open>handle_new_user\<close> runs with its definer's rights, so no policy applies to its insert;
  the constraints of \<open>profiles\<close> do: \<open>username\<close> is NOT NULL, \<open>id\<close> and
  \<open>username\<close> are unique, \<open>id\<close> references \<open>auth.users\<close>. The columns it does not
  name take their defaults.
\<close>

definition handle_new_user :: "database \<Rightarrow> timestamptz \<Rightarrow> auth_user \<Rightarrow> db_error + database" where
  "handle_new_user db now new =
     (case email new of
        None \<Rightarrow> Inl Not_null_violation
      | Some e \<Rightarrow>
          if uid new \<in> set (map profile_id (profiles db)) \<or> e \<in> set (map username (profiles db))
          then Inl Unique_violation
          else if uid new \<notin> set (map uid (auth_users db)) then Inl Foreign_key_violation
          else Inr (db\<lparr>profiles := profiles db @
                 [\<lparr>profile_id = uid new, username = e,
                   full_name = json_get_text (raw_user_meta_data new) ''full_name'',
                   avatar_url = None, bio = None,
                   profile_created_at = Some now, profile_updated_at = Some now\<rparr>]\<rparr>))"

text \<open>
  \<open>INSERT INTO auth.users\<close> with the trigger \<open>on_auth_user_created\<close>, which fires
  after each inserted row inside the same statement: an error raised by the trigger
  function aborts the statement, and the caller keeps the database it had.
\<close>

definition insert_auth_user :: "database \<Rightarrow> timestamptz \<Rightarrow> auth_user \<Rightarrow> db_error + database" where
  "insert_auth_user db now new =
     (if uid new \<in> set (map uid (auth_users db)) then Inl Unique_violation
      else handle_new_user (db\<lparr>auth_users := auth_users db @ [new]\<rparr>) now new)"

subsection \<open>Sequences of statements and sample data\<close>

fun run :: "(database \<Rightarrow> db_error + database) list \<Rightarrow> database \<Rightarrow> db_error + database" where
  "run [] db = Inr db"
| "run (stmt # stmts) db = (case stmt db of Inl e \<Rightarrow> Inl e | Inr db' \<Rightarrow> run stmts db')"

definition with_id :: "uuid \<Rightarrow> friendship \<Rightarrow> bool" where
  "with_id i f = (friendship_id f = i)"

definition set_status :: "string option \<Rightarrow> friendship \<Rightarrow> friendship" where
  "set_status st f = f\<lparr>status := st\<rparr>"

definition set_receiver_and_status :: "uuid \<Rightarrow> string option \<Rightarrow> friendship \<Rightarrow> friendship" where
  "set_receiver_and_status r st f = f\<lparr>receiver_id := r, status := st\<rparr>"

definition alice :: uuid where "alice = 1"
definition bob :: uuid where "bob = 2"
definition carol :: uuid where "carol = 3"

definition new_user :: "uuid \<Rightarrow> string \<Rightarrow> auth_user" where
  "new_user i e = \<lparr>uid = i, email = Some e, raw_user_meta_data = None\<rparr>"

definition request :: "uuid \<Rightarrow> uuid \<Rightarrow> uuid \<Rightarrow> friendship" where
  "request i s r =
     \<lparr>friendship_id = i, sender_id = s, receiver_id = r, status = Some ''pending'',
      friendship_created_at = Some 0, friendship_updated_at = Some 0\<rparr>"

definition friends_post :: "uuid \<Rightarrow> uuid \<Rightarrow> post" where
  "friends_post i owner =
     \<lparr>post_id = i, user_id = owner, content = ''hello'', image_url = None,
      privacy = Some ''friends'', created_at = Some 0, updated_at = Some 0\<rparr>"

definition empty_db :: database where
  "empty_db = \<lparr>auth_users = [], profiles = [], posts = [], friendships = []\<rparr>"

text \<open>Three registered users, and a friends-only post of \<open>bob\<close> and one of \<open>carol\<close>.\<close>

definition seed_db :: database where
  "seed_db =
     \<lparr>auth_users = [new_user alice ''alice@example.com'', new_user bob ''bob@example.com'',
                    new_user carol ''carol@example.com''],
      profiles =
        [\<lparr>profile_id = alice, username = ''alice@example.com'', full_name = None,
          avatar_url = None, bio = None, profile_created_at = Some 0, profile_updated_at = Some 0\<rparr>,
         \<lparr>profile_id = bob, username = ''bob@example.com'', full_name = None,
          avatar_url = None, bio = None, profile_created_at = Some 0, profile_updated_at = Some 0\<rparr>,
         \<lparr>profile_id = carol, username = ''carol@example.com'', full_name = None,
          avatar_url = None, bio = None, profile_created_at = Some 0, profile_updated_at = Some 0\<rparr>],
      posts = [friends_post 100 bob, friends_post 101 carol],
      friendships = []\<rparr>"

text \<open>
  \<open>alice\<close> and \<open>bob\<close> each sent the other a request, and each accepted the request
  received.
\<close>

definition two_way_db :: database where
  "two_way_db = seed_db\<lparr>friendships :=
     [set_status (Some ''accepted'') (request 10 alice bob),
      set_status (Some ''accepted'') (request 11 bob alice)]\<rparr>"

definition one_way_db :: database where
  "one_way_db = seed_db\<lparr>friendships :=
     [set_status (Some ''rejected'') (request 10 alice bob),
      set_status (Some ''accepted'') (request 11 bob alice)]\<rparr>"

text \<open>\<open>alice\<close> sent \<open>bob\<close> a request that is still pending.\<close>

definition pending_db :: database where
  "pending_db = seed_db\<lparr>friendships := [request 10 alice bob]\<rparr>"

definition retargeted_db :: database where
  "retargeted_db = seed_db\<lparr>friendships :=
     [set_receiver_and_status carol (Some ''accepted'') (request 10 alice bob)]\<rparr>"

section \<open>Auth store\<close>

text \<open>
  The store holds \<open>user\<close>, \<open>loading\<close> and \<open>verificationSent\<close>. Each action awaits one
  call of the identity client and throws the error of its answer, if there is one. The
  store registers a listener with \<open>onAuthStateChange\<close>, and the identity client calls
  it when a call establishes or ends a session, while the action is still awaiting the
  answer. When and with which session the client does so is the client's business, so an
  answer carries it: \<open>answer_notified\<close> is \<open>None\<close> when the listener is not called
  during the call, and the session's user (null without a session) when it is.
  \<open>set\<close> merges the given fields into the state. An action returns the store it
  leaves and the error it throws, if any.
\<close>

record auth_store =
  user :: "auth_user option"
  loading :: bool
  verificationSent :: bool

record auth_answer =
  answer_error :: "string option"
  answer_notified :: "auth_user option option"

definition initial_store :: auth_store where
  "initial_store = \<lparr>user = None, loading = True, verificationSent = False\<rparr>"

text \<open>
  The listener: \<open>session?.user || null\<close> is the session's user, or null without a
  session.
\<close>

definition onAuthStateChange :: "auth_store \<Rightarrow> auth_user option \<Rightarrow> auth_store" where
  "onAuthStateChange s session_user = s\<lparr>user := session_user, loading := False\<rparr>"

text \<open>The store when the awaited call has answered.\<close>

definition awaited :: "auth_store \<Rightarrow> auth_answer \<Rightarrow> auth_store" where
  "awaited s a =
     (case answer_notified a of None \<Rightarrow> s | Some session_user \<Rightarrow> onAuthStateChange s session_user)"

definition signIn ::
  "auth_store \<Rightarrow> js_string \<Rightarrow> js_string \<Rightarrow> bool \<Rightarrow> auth_answer \<Rightarrow> auth_store \<times> string option" where
  "signIn s email_arg password_arg rememberMe_arg a =
     (case answer_error a of Some e \<Rightarrow> (awaited s a, Some e) | None \<Rightarrow> (awaited s a, None))"

definition signUp ::
  "auth_store \<Rightarrow> js_string \<Rightarrow> js_string \<Rightarrow> auth_answer \<Rightarrow> auth_store \<times> string option" where
  "signUp s email_arg password_arg a =
     (case answer_error a of
        Some e \<Rightarrow> (awaited s a, Some e)
      | None \<Rightarrow> ((awaited s a)\<lparr>verificationSent := True\<rparr>, None))"

definition signOut :: "auth_store \<Rightarrow> auth_answer \<Rightarrow> auth_store \<times> string option" where
  "signOut s a =
     (case answer_error a of
        Some e \<Rightarrow> (awaited s a, Some e)
      | None \<Rightarrow> ((awaited s a)\<lparr>user := None\<rparr>, None))"

definition resetPassword :: "auth_store \<Rightarrow> js_string \<Rightarrow> auth_answer \<Rightarrow> auth_store \<times> string option" where
  "resetPassword s email_arg a =
     (case answer_error a of Some e \<Rightarrow> (awaited s a, Some e) | None \<Rightarrow> (awaited s a, None))"

definition verifyOtp ::
  "auth_store \<Rightarrow> js_string \<Rightarrow> js_string \<Rightarrow> auth_answer \<Rightarrow> auth_store \<times> string option" where
  "verifyOtp s email_arg token_arg a =
     (case answer_error a of Some e \<Rightarrow> (awaited s a, Some e) | None \<Rightarrow> (awaited s a, None))"

definition resendVerification ::
  "auth_store \<Rightarrow> js_string \<Rightarrow> auth_answer \<Rightarrow> auth_store \<times> string option" where
  "resendVerification s email_arg a =
     (case answer_error a of
        Some e \<Rightarrow> (awaited s a, Some e)
      | None \<Rightarrow> ((awaited s a)\<lparr>verificationSent := True\<rparr>, None))"

text \<open>
  Two answers to a registration without error: one from an identity service that waits
  for the email to be confirmed and opens no session, one from a service that confirms
  at once and opens a session for the new user.
\<close>

definition pending_answer :: auth_answer where
  "pending_answer = \<lparr>answer_error = None, answer_notified = None\<rparr>"

definition session_answer :: "auth_user \<Rightarrow> auth_answer" where
  "session_answer u = \<lparr>answer_error = None, answer_notified = Some (Some u)\<rparr>"

section \<open>Auth form\<close>

datatype auth_mode = Login | Register | Verify | Reset

text \<open>
  The form's error is a fixed text or the countdown
  \<open>Too many attempts. Please try again in n seconds\<close>.
\<close>

datatype form_error = Plain string | Retry_in_seconds int

record auth_form =
  mode :: auth_mode
  form_email :: js_string
  password :: js_string
  confirmPassword :: js_string
  verificationCode :: js_string
  rememberMe :: bool
  form_loading :: bool
  error :: "form_error option"
  form_success :: "string option"
  attempts :: nat
  lockoutUntil :: "int option"

definition initial_form :: auth_form where
  "initial_form =
     \<lparr>mode = Login, form_email = [], password = [], confirmPassword = [],
      verificationCode = [], rememberMe = False, form_loading = False, error = None,
      form_success = None, attempts = 0, lockoutUntil = None\<rparr>"

text \<open>
  What one submission reads from outside the form: the clock, in milliseconds, at the
  lockout test, in the countdown message, in the catch branch and when the lockout effect
  runs after the state update; and the error thrown by the awaited store action, if any.
\<close>

record submission =
  check_time :: int
  message_time :: int
  catch_time :: int
  effect_time :: int
  service_error :: "string option"

text \<open>The body of the \<open>try\<close> block: \<open>Inl\<close> is the message of the error thrown.\<close>

definition try_block :: "(js_string \<Rightarrow> bool) \<Rightarrow> auth_form \<Rightarrow> string option \<Rightarrow> string + auth_form" where
  "try_block email_pattern s service =
     (case first_message (safeParse (emailSchema email_pattern) (form_email s)) of
        Some m \<Rightarrow> Inl m
      | None \<Rightarrow>
         (case mode s of
            Login \<Rightarrow>
              (case first_message (safeParse passwordSchema (password s)) of
                 Some m \<Rightarrow> Inl m
               | None \<Rightarrow> (case service of Some e \<Rightarrow> Inl e | None \<Rightarrow> Inr s))
          | Register \<Rightarrow>
              (case first_message (safeParse passwordSchema (password s)) of
                 Some m \<Rightarrow> Inl m
               | None \<Rightarrow>
                  if password s \<noteq> confirmPassword s then Inl ''Passwords do not match''
                  else (case service of
                          Some e \<Rightarrow> Inl e
                        | None \<Rightarrow> Inr (s\<lparr>mode := Verify, form_success :=
                            Some ''Registration successful! Please check your email for verification.''\<rparr>)))
          | Verify \<Rightarrow>
              (case first_message (safeParse verificationCodeSchema (verificationCode s)) of
                 Some m \<Rightarrow> Inl m
               | None \<Rightarrow>
                  (case service of
                     Some e \<Rightarrow> Inl e
                   | None \<Rightarrow> Inr (s\<lparr>form_success :=
                       Some ''Email verified successfully! You can now login.'', mode := Login\<rparr>)))
          | Reset \<Rightarrow>
              (case service of
                 Some e \<Rightarrow> Inl e
               | None \<Rightarrow> Inr (s\<lparr>form_success :=
                   Some ''Password reset instructions have been sent to your email.'',
                   mode := Login\<rparr>))))"

definition lockout_active :: "auth_form \<Rightarrow> int \<Rightarrow> int option" where
  "lockout_active s now =
     (case lockoutUntil s of None \<Rightarrow> None | Some l \<Rightarrow> if now < l then Some l else None)"

text \<open>\<open>Math.ceil(ms / 1000)\<close>.\<close>

definition ceil_seconds :: "int \<Rightarrow> int" where
  "ceil_seconds ms = - ((- ms) div 1000)"

text \<open>
  \<open>handleSubmit\<close>. The test \<open>attempts >= 4\<close> reads the counter of the render that
  created the handler, that is, the counter before this submission's increment.
\<close>

definition handleSubmit :: "(js_string \<Rightarrow> bool) \<Rightarrow> auth_form \<Rightarrow> submission \<Rightarrow> auth_form" where
  "handleSubmit email_pattern s ev =
     (let s1 = s\<lparr>error := None, form_success := None\<rparr> in
      case lockout_active s (check_time ev) of
        Some l \<Rightarrow> s1\<lparr>error := Some (Retry_in_seconds (ceil_seconds (l - message_time ev)))\<rparr>
      | None \<Rightarrow>
         (case try_block email_pattern (s1\<lparr>form_loading := True\<rparr>) (service_error ev) of
            Inr s2 \<Rightarrow> s2\<lparr>attempts := 0, form_loading := False\<rparr>
          | Inl m \<Rightarrow>
             (if attempts s \<ge> 4
              then s1\<lparr>attempts := attempts s1 + 1,
                      lockoutUntil := Some (catch_time ev + 300000),
                      error := Some (Plain ''Too many attempts. Please try again in 5 minutes.''),
                      form_loading := False\<rparr>
              else s1\<lparr>attempts := attempts s1 + 1, error := Some (Plain m),
                      form_loading := False\<rparr>)))"

text \<open>
  The effect \<open>useEffect(..., [lockoutUntil])\<close>: it runs after the first render, where
  \<open>lockoutUntil\<close> is null, and after a render in which \<open>lockoutUntil\<close> was replaced. The
  only writers of \<open>lockoutUntil\<close> are the catch branch of \<open>handleSubmit\<close> and the effect
  itself, whose write of null makes it run once more to no effect.
\<close>

definition lockout_effect :: "auth_form \<Rightarrow> int \<Rightarrow> auth_form" where
  "lockout_effect s now =
     (case lockoutUntil s of
        None \<Rightarrow> s
      | Some l \<Rightarrow> if now > l then s\<lparr>lockoutUntil := None, attempts := 0\<rparr> else s)"

definition sets_lockoutUntil :: "(js_string \<Rightarrow> bool) \<Rightarrow> auth_form \<Rightarrow> submission \<Rightarrow> bool" where
  "sets_lockoutUntil email_pattern s ev =
     (lockout_active s (check_time ev) = None \<and>
      isl (try_block email_pattern (s\<lparr>error := None, form_success := None, form_loading := True\<rparr>)
             (service_error ev)) \<and>
      attempts s \<ge> 4)"

text \<open>One submission of the form, followed by the effect when the submission replaced
  \<open>lockoutUntil\<close>.\<close>

definition submit :: "(js_string \<Rightarrow> bool) \<Rightarrow> auth_form \<Rightarrow> submission \<Rightarrow> auth_form" where
  "submit email_pattern s ev =
     (if sets_lockoutUntil email_pattern s ev
      then lockout_effect (handleSubmit email_pattern s ev) (effect_time ev)
      else handleSubmit email_pattern s ev)"

fun submits :: "(js_string \<Rightarrow> bool) \<Rightarrow> auth_form \<Rightarrow> submission list \<Rightarrow> auth_form" where
  "submits email_pattern s [] = s"
| "submits email_pattern s (ev # evs) = submits email_pattern (submit email_pattern s ev) evs"

text \<open>A login form filled in with a well-formed email and password.\<close>

definition filled_form :: auth_form where
  "filled_form = initial_form\<lparr>form_email := utf16 ''a@b.co'', password := utf16 ''Abc123!@''\<rparr>"

text \<open>A submission at one instant \<open>t\<close> whose store action, if reached, is refused.\<close>

definition refused_at :: "int \<Rightarrow> submission" where
  "refused_at t =
     \<lparr>check_time = t, message_time = t, catch_time = t, effect_time = t,
      service_error = Some ''Invalid login credentials''\<rparr>"

definition five_failures :: "submission list" where
  "five_failures = [refused_at 1000, refused_at 2000, refused_at 3000, refused_at 4000,
                    refused_at 5000]"

section \<open>Feed\<close>

text \<open>
  The rows of a feed as the client receives them: the selected columns of \<open>posts\<close> and
  the embedded \<open>profiles\<close> row of the owner.
\<close>

record feed_profile =
  feed_username :: string
  feed_avatar_url :: "string option"

record feed_post =
  feed_id :: uuid
  feed_content :: string
  feed_image_url :: "string option"
  feed_created_at :: "timestamptz option"
  feed_profiles :: "feed_profile option"

record response =
  resp_data :: "feed_post list option"
  resp_error :: "string option"

record home =
  home_posts :: "feed_post list"
  home_content :: js_string
  imageUrl :: js_string

definition initial_home :: home where
  "initial_home = \<lparr>home_posts = [], home_content = [], imageUrl = []\<rparr>"

text \<open>
  The backing store's \<open>ORDER BY created_at\<close>: NULL sorts as larger than every
  timestamp, so it comes first when descending and last when ascending. The order among
  equal keys is not determined by the query; insertion is one admissible choice.
\<close>

fun precedes :: "bool \<Rightarrow> timestamptz option \<Rightarrow> timestamptz option \<Rightarrow> bool" where
  "precedes ascending (Some x) (Some y) = (if ascending then x \<le> y else y \<le> x)"
| "precedes ascending None (Some y) = (\<not> ascending)"
| "precedes ascending (Some x) None = ascending"
| "precedes ascending None None = True"

fun insert_ordered :: "bool \<Rightarrow> post \<Rightarrow> post list \<Rightarrow> post list" where
  "insert_ordered ascending p [] = [p]"
| "insert_ordered ascending p (q # qs) =
     (if precedes ascending (created_at p) (created_at q) then p # q # qs
      else q # insert_ordered ascending p qs)"

definition order_by_created_at :: "bool \<Rightarrow> post list \<Rightarrow> post list" where
  "order_by_created_at ascending ps = foldr (insert_ordered ascending) ps []"

definition embed_profile :: "database \<Rightarrow> uuid option \<Rightarrow> uuid \<Rightarrow> feed_profile option" where
  "embed_profile db auth_uid owner =
     (case filter (\<lambda>q. profile_id q = owner \<and> holds (profiles_select_using auth_uid q))
             (profiles db) of
        [] \<Rightarrow> None
      | q # qs \<Rightarrow> Some \<lparr>feed_username = username q, feed_avatar_url = avatar_url q\<rparr>)"

definition to_feed_post :: "database \<Rightarrow> uuid option \<Rightarrow> post \<Rightarrow> feed_post" where
  "to_feed_post db auth_uid p =
     \<lparr>feed_id = post_id p, feed_content = content p, feed_image_url = image_url p,
      feed_created_at = created_at p, feed_profiles = embed_profile db auth_uid (user_id p)\<rparr>"

text \<open>
  The answer to the query \<open>fetchPosts\<close> builds,
  \<open>from('posts').select(...).order('created_at', { ascending: false })\<close>, for a requester:
  an error when the request fails, else the rows the SELECT policy lets through, in the
  order requested.
\<close>

definition posts_query :: "bool \<Rightarrow> database \<Rightarrow> uuid option \<Rightarrow> string option \<Rightarrow> response" where
  "posts_query ascending db auth_uid failure =
     (case failure of
        Some e \<Rightarrow> \<lparr>resp_data = None, resp_error = Some e\<rparr>
      | None \<Rightarrow> \<lparr>resp_data = Some (map (to_feed_post db auth_uid)
                     (order_by_created_at ascending (select_posts db auth_uid))),
                 resp_error = None\<rparr>)"

text \<open>\<open>setPosts(data || [])\<close> unless the answer carries an error.\<close>

definition setPosts_from :: "home \<Rightarrow> response \<Rightarrow> home" where
  "setPosts_from s r =
     (case resp_error r of
        Some e \<Rightarrow> s
      | None \<Rightarrow> s\<lparr>home_posts := (case resp_data r of None \<Rightarrow> [] | Some d \<Rightarrow> d)\<rparr>)"

definition fetchPosts :: "home \<Rightarrow> database \<Rightarrow> uuid option \<Rightarrow> string option \<Rightarrow> home" where
  "fetchPosts s db auth_uid failure = setPosts_from s (posts_query False db auth_uid failure)"



definition public_post :: "uuid \<Rightarrow> uuid \<Rightarrow> timestamptz \<Rightarrow> post" where
  "public_post i owner t =
     \<lparr>post_id = i, user_id = owner, content = ''hello'', image_url = None,
      privacy = Some ''public'', created_at = Some t, updated_at = Some t\<rparr>"

text \<open>Three public posts, stored out of order, beside the friends-only ones.\<close>

definition feed_db :: database where
  "feed_db = seed_db\<lparr>posts :=
     [public_post 200 alice 10, friends_post 100 bob, public_post 201 bob 30,
      public_post 202 carol 20]\<rparr>"

text \<open>A public post inserted with \<open>created_at: null\<close>, and the feed data with it.\<close>

definition undated_post :: "uuid \<Rightarrow> uuid \<Rightarrow> post" where
  "undated_post i owner =
     \<lparr>post_id = i, user_id = owner, content = ''hello'', image_url = None,
      privacy = Some ''public'', created_at = None, updated_at = Some 40\<rparr>"

definition undated_feed_db :: database where
  "undated_feed_db = feed_db\<lparr>posts := posts feed_db @ [undated_post 203 alice]\<rparr>"

section \<open>Properties of the validation layer\<close>

lemma search_iff: "search cls s \<longleftrightarrow> (\<exists>c \<in> set s. class_matches cls c)"
  by (induction s) auto

lemma plus_to_end_iff: "plus_to_end cls s \<longleftrightarrow> s \<noteq> [] \<and> (\<forall>c \<in> set s. class_matches cls c)"
  by (induction s) auto

lemma upper_class_iff: "class_matches upper_class c = is_upper c"
  by (simp add: upper_class_def is_upper_def)

lemma lower_class_iff: "class_matches lower_class c = is_lower c"
  by (simp add: lower_class_def is_lower_def)

lemma digit_class_iff: "class_matches digit_class c = is_digit c"
  by (simp add: digit_class_def is_digit_def)

lemma special_class_iff: "class_matches special_class c = (\<not> is_alphanumeric c)"
  by (simp add: special_class_def is_alphanumeric_def is_upper_def is_lower_def is_digit_def)

lemma success_safeParse: "success (safeParse schema s) \<longleftrightarrow> issues schema s = []"
  by (simp add: safeParse_def split: list.split)

lemma issues_empty_iff: "issues schema s = [] \<longleftrightarrow> (\<forall>c \<in> set schema. check_passes c s)"
  by (induction schema) auto

lemma first_message_safeParse:
  "first_message (safeParse schema s) = (case issues schema s of [] \<Rightarrow> None | m # ms \<Rightarrow> Some m)"
  by (simp add: safeParse_def split: list.split)

lemmas class_defs = upper_class_def lower_class_def digit_class_def special_class_def

lemma sample_email_pattern_examples:
  "sample_email_pattern (utf16 ''a@b.co'')" "\<not> sample_email_pattern (utf16 ''x@y'')"
  by (simp_all add: sample_email_pattern_def utf16_def Let_def)

text \<open>
  C3. The password schema accepts a string exactly when it has at least 8 code units and
  contains an uppercase letter \<open>A-Z\<close>, a lowercase letter \<open>a-z\<close>, a digit \<open>0-9\<close> and a
  code unit outside these three ranges; \<open>Abc123!@\<close> is accepted and \<open>abc12345\<close> is
  rejected.
\<close>

theorem passwordSchema_accepts_iff:
  "(success (safeParse passwordSchema s) \<longleftrightarrow>
      8 \<le> length s \<and> (\<exists>c \<in> set s. is_upper c) \<and> (\<exists>c \<in> set s. is_lower c) \<and>
      (\<exists>c \<in> set s. is_digit c) \<and> (\<exists>c \<in> set s. \<not> is_alphanumeric c)) \<and>
   success (safeParse passwordSchema (utf16 ''Abc123!@'')) \<and>
   \<not> success (safeParse passwordSchema (utf16 ''abc12345''))"
proof (intro conjI)
  show "success (safeParse passwordSchema s) \<longleftrightarrow>
      8 \<le> length s \<and> (\<exists>c \<in> set s. is_upper c) \<and> (\<exists>c \<in> set s. is_lower c) \<and>
      (\<exists>c \<in> set s. is_digit c) \<and> (\<exists>c \<in> set s. \<not> is_alphanumeric c)"
    by (simp add: success_safeParse issues_empty_iff passwordSchema_def search_iff
        upper_class_iff lower_class_iff digit_class_iff special_class_iff not_less)
  show "success (safeParse passwordSchema (utf16 ''Abc123!@''))"
    by (simp add: safeParse_def passwordSchema_def utf16_def class_defs)
  show "\<not> success (safeParse passwordSchema (utf16 ''abc12345''))"
    by (simp add: safeParse_def passwordSchema_def utf16_def class_defs)
qed

theorem passwordSchema_accepts_iff_witness:
  "success (safeParse passwordSchema (utf16 ''Abc123!@'')) \<and>
   8 \<le> length (utf16 ''Abc123!@'') \<and>
   (\<exists>c \<in> set (utf16 ''Abc123!@''). is_upper c) \<and>
   (\<exists>c \<in> set (utf16 ''Abc123!@''). \<not> is_alphanumeric c)"
  using passwordSchema_accepts_iff [of "utf16 ''Abc123!@''"] by blast

text \<open>
  C7. The email schema accepts a string exactly when the library's email pattern accepts
  it and its length is between 5 and 64 code units. \<open>a@b.co\<close>, of 6 code units, is
  accepted by the schema when the pattern accepts it; \<open>x@y\<close> is rejected, and when the
  pattern rejects it the message shown is the one for the format.
\<close>

theorem emailSchema_accepts_iff:
  "(success (safeParse (emailSchema p) s) \<longleftrightarrow> p s \<and> 5 \<le> length s \<and> length s \<le> 64) \<and>
   length (utf16 ''a@b.co'') = 6 \<and>
   (p (utf16 ''a@b.co'') \<longrightarrow> success (safeParse (emailSchema p) (utf16 ''a@b.co''))) \<and>
   \<not> success (safeParse (emailSchema p) (utf16 ''x@y'')) \<and>
   (\<not> p (utf16 ''x@y'') \<longrightarrow>
      first_message (safeParse (emailSchema p) (utf16 ''x@y''))
        = Some ''Please enter a valid email address'')"
proof -
  have iff: "success (safeParse (emailSchema q) t) \<longleftrightarrow> q t \<and> 5 \<le> length t \<and> length t \<le> 64"
    for q t
    by (auto simp: success_safeParse issues_empty_iff emailSchema_def)
  have len: "length (utf16 ''a@b.co'') = 6" "length (utf16 ''x@y'') = 3"
    by (simp_all add: utf16_def)
  have msg: "\<not> p (utf16 ''x@y'') \<Longrightarrow>
      first_message (safeParse (emailSchema p) (utf16 ''x@y''))
        = Some ''Please enter a valid email address''"
    by (simp add: first_message_safeParse emailSchema_def)
  from iff len msg show ?thesis by simp
qed

theorem emailSchema_accepts_iff_witness:
  "sample_email_pattern (utf16 ''a@b.co'') \<and>
   success (safeParse (emailSchema sample_email_pattern) (utf16 ''a@b.co'')) \<and>
   \<not> sample_email_pattern (utf16 ''x@y'') \<and>
   first_message (safeParse (emailSchema sample_email_pattern) (utf16 ''x@y''))
     = Some ''Please enter a valid email address''"
  using emailSchema_accepts_iff [of sample_email_pattern "utf16 ''a@b.co''"]
    sample_email_pattern_examples
  by simp

text \<open>
  C8. The verification-code schema accepts a string exactly when it has 6 code units, all
  of them decimal digits; \<open>123456\<close> is accepted, \<open>12a456\<close> and \<open>12345\<close> are rejected.
\<close>

theorem verificationCodeSchema_accepts_iff:
  "(success (safeParse verificationCodeSchema s) \<longleftrightarrow>
      length s = 6 \<and> (\<forall>c \<in> set s. is_digit c)) \<and>
   success (safeParse verificationCodeSchema (utf16 ''123456'')) \<and>
   \<not> success (safeParse verificationCodeSchema (utf16 ''12a456'')) \<and>
   \<not> success (safeParse verificationCodeSchema (utf16 ''12345''))"
proof (intro conjI)
  show "success (safeParse verificationCodeSchema s) \<longleftrightarrow>
      length s = 6 \<and> (\<forall>c \<in> set s. is_digit c)"
    by (auto simp: success_safeParse issues_empty_iff verificationCodeSchema_def plus_to_end_iff
        digit_class_iff)
qed (simp_all add: safeParse_def verificationCodeSchema_def utf16_def digit_class_def)

theorem verificationCodeSchema_accepts_iff_witness:
  "success (safeParse verificationCodeSchema (utf16 ''123456'')) \<and>
   length (utf16 ''123456'') = 6 \<and>
   is_digit (of_char CHR ''4'')"
proof -
  have "of_char CHR ''4'' \<in> set (utf16 ''123456'')"
    by (simp add: utf16_def)
  with verificationCodeSchema_accepts_iff [of "utf16 ''123456''"] show ?thesis
    by blast
qed

section \<open>Properties of the policies\<close>

lemma holds_sql_or: "holds (sql_or a b) \<longleftrightarrow> holds a \<or> holds b"
  by (cases "(a, b)" rule: sql_or.cases) (auto simp: holds_def)

lemma holds_sql_and: "holds (sql_and a b) \<longleftrightarrow> holds a \<and> holds b"
  by (cases "(a, b)" rule: sql_and.cases) (auto simp: holds_def)

lemma holds_sql_eq: "holds (sql_eq a b) \<longleftrightarrow> (\<exists>x. a = Some x \<and> b = Some x)"
  by (cases "(a, b)" rule: sql_eq.cases) (auto simp: holds_def)

lemma holds_Some: "holds (Some b) \<longleftrightarrow> b"
  by (simp add: holds_def)

lemma holds_None: "\<not> holds None"
  by (simp add: holds_def)

lemma holds_sql_exists: "holds (sql_exists rows) \<longleftrightarrow> rows \<noteq> []"
  by (simp add: holds_def sql_exists_def)

lemma filter_nonempty: "filter P xs \<noteq> [] \<longleftrightarrow> (\<exists>x \<in> set xs. P x)"
  by (simp add: filter_empty_conv)

lemmas holds_simps = holds_sql_or holds_sql_and holds_sql_eq holds_sql_exists holds_Some holds_None

text \<open>
  The friendships read inside the posts policy pass through the friendships SELECT
  policy, which never hides a row that links the requester to the owner.
\<close>

lemma visible_iff:
  "visible db r p \<longleftrightarrow>
     privacy p = Some ''public'' \<or> r = Some (user_id p) \<or>
     (privacy p = Some ''friends'' \<and>
      (\<exists>f \<in> set (friendships db). status f = Some ''accepted'' \<and> links f r (user_id p)))"
  unfolding visible_def posts_select_using_def select_friendships_def friendships_select_using_def
  by (auto simp: holds_simps filter_nonempty links_def)

lemma participant_iff:
  "holds (friendships_update_using r f) \<longleftrightarrow> r = Some (sender_id f) \<or> r = Some (receiver_id f)"
  by (auto simp: friendships_update_using_def holds_simps)

lemma insert_check_iff: "holds (friendships_insert_check r f) \<longleftrightarrow> r = Some (sender_id f)"
  by (auto simp: friendships_insert_check_def holds_simps)

lemma friendships_constraints_not_policy:
  "friendships_constraints db fs \<noteq> Some Row_security_violation"
  by (simp add: friendships_constraints_def)

lemmas sample_defs = seed_db_def two_way_db_def one_way_db_def pending_db_def retargeted_db_def
  request_def set_status_def set_receiver_and_status_def friends_post_def new_user_def
  alice_def bob_def carol_def with_id_def

lemmas statement_defs = insert_friendship_def update_friendships_def friendships_constraints_def
  is_target_def unique_conflict_def
  friendships_unique_def friendships_references_def status_check_def check_ok_def
  friendships_insert_check_def friendships_update_using_def friendships_select_using_def
  holds_def

text \<open>
  The state with an accepted friendship in each direction is reached from the seed data
  by statements the policies and constraints permit.
\<close>

lemma two_way_db_reachable:
  "run [\<lambda>db. insert_friendship db (Some alice) (request 10 alice bob),
        \<lambda>db. insert_friendship db (Some bob) (request 11 bob alice),
        \<lambda>db. update_friendships db (Some bob) (with_id 10) (set_status (Some ''accepted'')),
        \<lambda>db. update_friendships db (Some alice) (with_id 11) (set_status (Some ''accepted''))]
     seed_db = Inr two_way_db"
  by (simp add: sample_defs statement_defs)

text \<open>
  C1, as stated, fails where both directions of a friendship are accepted: \<open>alice\<close>
  sees \<open>bob\<close>'s friends-only post through the accepted row 10; \<open>bob\<close> changes row 10
  from accepted to rejected; the post is still visible to \<open>alice\<close>, through row 11.
\<close>

theorem rejected_friendship_still_visible:
  "status (friendships two_way_db ! 0) = Some ''accepted'' \<and>
   links (friendships two_way_db ! 0) (Some alice) bob \<and>
   privacy (friends_post 100 bob) = Some ''friends'' \<and>
   user_id (friends_post 100 bob) = bob \<and>
   alice \<noteq> bob \<and>
   visible two_way_db (Some alice) (friends_post 100 bob) \<and>
   update_friendships two_way_db (Some bob) (with_id 10) (set_status (Some ''rejected''))
     = Inr one_way_db \<and>
   friendships one_way_db
     = (friendships two_way_db)[0 := set_status (Some ''rejected'') (friendships two_way_db ! 0)] \<and>
   status (friendships one_way_db ! 0) = Some ''rejected'' \<and>
   visible one_way_db (Some alice) (friends_post 100 bob)"
  by (simp add: sample_defs statement_defs visible_iff links_def)

text \<open>
  C1, amended. The posts read policy shows a row to a requester exactly when its privacy
  is public, or the requester is its owner, or its privacy is friends and some
  friendships row with status accepted links requester and owner in either direction.
  In particular, for a friends-only row and a requester who is not the owner, changing
  the status of an accepted linking row to rejected makes the row invisible on the next
  evaluation, provided no other accepted friendships row links the two.
\<close>

theorem posts_select_policy_visibility:
  "(visible db r p \<longleftrightarrow>
      privacy p = Some ''public'' \<or> r = Some (user_id p) \<or>
      (privacy p = Some ''friends'' \<and>
       (\<exists>f \<in> set (friendships db). status f = Some ''accepted'' \<and> links f r (user_id p)))) \<and>
   (privacy p = Some ''friends'' \<and> r \<noteq> Some (user_id p) \<and> i < length (friendships db) \<and>
    links (friendships db ! i) r (user_id p) \<and> status (friendships db ! i) = Some ''accepted'' \<and>
    (\<forall>j < length (friendships db). j \<noteq> i \<longrightarrow>
       \<not> (links (friendships db ! j) r (user_id p) \<and>
          status (friendships db ! j) = Some ''accepted''))
    \<longrightarrow> visible db r p \<and>
        \<not> visible (db\<lparr>friendships :=
             (friendships db)[i := set_status (Some ''rejected'') (friendships db ! i)]\<rparr>) r p)"
proof (intro conjI impI)
  show "visible db r p \<longleftrightarrow>
      privacy p = Some ''public'' \<or> r = Some (user_id p) \<or>
      (privacy p = Some ''friends'' \<and>
       (\<exists>f \<in> set (friendships db). status f = Some ''accepted'' \<and> links f r (user_id p)))"
    by (rule visible_iff)
next
  assume h: "privacy p = Some ''friends'' \<and> r \<noteq> Some (user_id p) \<and> i < length (friendships db) \<and>
    links (friendships db ! i) r (user_id p) \<and> status (friendships db ! i) = Some ''accepted'' \<and>
    (\<forall>j < length (friendships db). j \<noteq> i \<longrightarrow>
       \<not> (links (friendships db ! j) r (user_id p) \<and>
          status (friendships db ! j) = Some ''accepted''))"
  then have "friendships db ! i \<in> set (friendships db)" by simp
  with h show "visible db r p" by (auto simp: visible_iff)
next
  assume h: "privacy p = Some ''friends'' \<and> r \<noteq> Some (user_id p) \<and> i < length (friendships db) \<and>
    links (friendships db ! i) r (user_id p) \<and> status (friendships db ! i) = Some ''accepted'' \<and>
    (\<forall>j < length (friendships db). j \<noteq> i \<longrightarrow>
       \<not> (links (friendships db ! j) r (user_id p) \<and>
          status (friendships db ! j) = Some ''accepted''))"
  let ?fs = "(friendships db)[i := set_status (Some ''rejected'') (friendships db ! i)]"
  have "\<not> (links f r (user_id p) \<and> status f = Some ''accepted'')" if "f \<in> set ?fs" for f
  proof -
    from that obtain j where j: "j < length ?fs" "f = ?fs ! j"
      by (auto simp: in_set_conv_nth)
    show ?thesis
    proof (cases "j = i")
      case True
      with j show ?thesis by (simp add: set_status_def)
    next
      case False
      with j h show ?thesis by simp
    qed
  qed
  with h show "\<not> visible (db\<lparr>friendships := ?fs\<rparr>) r p"
    by (auto simp: visible_iff)
qed

theorem posts_select_policy_visibility_witness:
  "visible one_way_db (Some alice) (friends_post 100 bob) \<and>
   \<not> visible (one_way_db\<lparr>friendships :=
        (friendships one_way_db)[1 := set_status (Some ''rejected'') (friendships one_way_db ! 1)]\<rparr>)
      (Some alice) (friends_post 100 bob)"
proof -
  have "privacy (friends_post 100 bob) = Some ''friends'' \<and>
    Some alice \<noteq> Some (user_id (friends_post 100 bob)) \<and> 1 < length (friendships one_way_db) \<and>
    links (friendships one_way_db ! 1) (Some alice) (user_id (friends_post 100 bob)) \<and>
    status (friendships one_way_db ! 1) = Some ''accepted'' \<and>
    (\<forall>j < length (friendships one_way_db). j \<noteq> 1 \<longrightarrow>
       \<not> (links (friendships one_way_db ! j) (Some alice) (user_id (friends_post 100 bob)) \<and>
          status (friendships one_way_db ! j) = Some ''accepted''))"
    by (simp add: sample_defs links_def less_Suc_eq)
  with posts_select_policy_visibility [of one_way_db "Some alice" "friends_post 100 bob" 1]
  show ?thesis by blast
qed

text \<open>
  C5. The friendships INSERT policy passes exactly when the row's \<open>sender_id\<close> is the
  requester's identity: an insert whose \<open>sender_id\<close> differs from the requester is
  rejected as a policy violation whatever the table holds, and an insert whose
  \<open>sender_id\<close> is the requester is never rejected by the policy.
\<close>

theorem friendships_insert_policy:
  "(holds (friendships_insert_check r f) \<longleftrightarrow> r = Some (sender_id f)) \<and>
   (r \<noteq> Some (sender_id f) \<longrightarrow> insert_friendship db r f = Inl Row_security_violation) \<and>
   (r = Some (sender_id f) \<longrightarrow> insert_friendship db r f \<noteq> Inl Row_security_violation)"
  using friendships_constraints_not_policy [of db "friendships db @ [f]"]
  by (auto simp: insert_friendship_def insert_check_iff split: option.splits)

theorem friendships_insert_policy_witness:
  "Some alice \<noteq> Some (sender_id (request 10 bob alice)) \<and>
   insert_friendship seed_db (Some alice) (request 10 bob alice) = Inl Row_security_violation \<and>
   insert_friendship seed_db None (request 10 bob alice) = Inl Row_security_violation \<and>
   Some alice = Some (sender_id (request 10 alice bob)) \<and>
   insert_friendship seed_db (Some alice) (request 10 alice bob) \<noteq> Inl Row_security_violation"
proof -
  have "Some alice \<noteq> Some (sender_id (request 10 bob alice))"
    "None \<noteq> Some (sender_id (request 10 bob alice))"
    "Some alice = Some (sender_id (request 10 alice bob))"
    by (simp_all add: request_def alice_def bob_def)
  with friendships_insert_policy [of "Some alice" "request 10 bob alice" seed_db]
    friendships_insert_policy [of None "request 10 bob alice" seed_db]
    friendships_insert_policy [of "Some alice" "request 10 alice bob" seed_db]
  show ?thesis by blast
qed

text \<open>
  C6. The friendships UPDATE policy lets a participant change more than the status:
  \<open>alice\<close>, sender of a pending request to \<open>bob\<close>, rewrites its \<open>receiver_id\<close> to
  \<open>carol\<close> and its status to accepted. The statement succeeds, and \<open>carol\<close>'s
  friends-only post, hidden from \<open>alice\<close> before, is visible to her after.
\<close>

theorem friendships_update_rewrites_receiver:
  "map receiver_id (friendships pending_db) = [bob] \<and>
   update_friendships pending_db (Some alice) (with_id 10)
       (set_receiver_and_status carol (Some ''accepted'')) = Inr retargeted_db \<and>
   map friendship_id (friendships retargeted_db) = [10] \<and>
   map receiver_id (friendships retargeted_db) = [carol] \<and>
   \<not> visible pending_db (Some alice) (friends_post 101 carol) \<and>
   visible retargeted_db (Some alice) (friends_post 101 carol)"
  by (simp add: sample_defs statement_defs visible_iff links_def)

text \<open>
  What the UPDATE policy does restrict: an update of a row is refused or skipped unless
  the requester is a participant of the row before the update and of the row after it.
\<close>

lemma update_rows_participant:
  "update_rows r wh st written fs = Inr fs' \<Longrightarrow>
   length fs' = length written + length fs \<and> take (length written) fs' = written \<and>
   (\<forall>i < length fs. fs' ! (length written + i) = fs ! i \<or>
      (fs' ! (length written + i) = st (fs ! i) \<and>
       holds (friendships_update_using r (fs ! i)) \<and>
       holds (friendships_update_using r (st (fs ! i)))))"
proof (induction fs arbitrary: written)
  case Nil
  then show ?case by simp
next
  case (Cons f fs)
  from Cons.prems obtain x where run: "update_rows r wh st (written @ [x]) fs = Inr fs'"
    and x: "x = f \<or> (x = st f \<and> holds (friendships_update_using r f) \<and>
                      holds (friendships_update_using r (st f)))"
    by (auto simp: is_target_def split: if_splits)
  from Cons.IH [OF run] have len: "length fs' = Suc (length written) + length fs"
    and pre: "take (Suc (length written)) fs' = written @ [x]"
    and rest: "\<And>i. i < length fs \<Longrightarrow>
      fs' ! (Suc (length written) + i) = fs ! i \<or>
      (fs' ! (Suc (length written) + i) = st (fs ! i) \<and>
       holds (friendships_update_using r (fs ! i)) \<and>
       holds (friendships_update_using r (st (fs ! i))))"
    by auto
  from pre have "take (length written) (take (Suc (length written)) fs') = written"
    by simp
  then have pre': "take (length written) fs' = written"
    by (simp add: min_def)
  from pre len have at: "fs' ! length written = x"
    by (metis lessI nth_append_length nth_take)
  show ?case
  proof (intro conjI allI impI)
    from len show "length fs' = length written + length (f # fs)" by simp
  next
    from pre' show "take (length written) fs' = written" .
  next
    fix i assume i: "i < length (f # fs)"
    show "fs' ! (length written + i) = (f # fs) ! i \<or>
      (fs' ! (length written + i) = st ((f # fs) ! i) \<and>
       holds (friendships_update_using r ((f # fs) ! i)) \<and>
       holds (friendships_update_using r (st ((f # fs) ! i))))"
    proof (cases i)
      case 0
      with at x show ?thesis by auto
    next
      case (Suc k)
      with i have "k < length fs" by simp
      from rest [OF this] Suc show ?thesis by simp
    qed
  qed
qed

text \<open>
  Rows are written one at a time: exchanging sender and receiver of the two rows of
  \<open>two_way_db\<close> in one statement is refused at the first row, whose new sender and
  receiver are still those of the second.
\<close>

lemma swap_refused:
  "update_friendships two_way_db (Some alice) (\<lambda>f. True)
     (\<lambda>f. f\<lparr>sender_id := receiver_id f, receiver_id := sender_id f\<rparr>) = Inl Unique_violation"
  by (simp add: sample_defs statement_defs)

text \<open>
  C4. A statement that creates an identity creates, in the same statement, exactly one
  profile row for it: its id is the identity's id, its username the identity's email and
  its full name the \<open>full_name\<close> entry of the registration metadata. No profile with
  that id existed before.
\<close>

theorem registration_creates_profile:
  "insert_auth_user db now new = Inr db' \<Longrightarrow>
   auth_users db' = auth_users db @ [new] \<and>
   (\<exists>p. profiles db' = profiles db @ [p] \<and> profile_id p = uid new \<and>
        email new = Some (username p) \<and>
        full_name p = json_get_text (raw_user_meta_data new) ''full_name'') \<and>
   uid new \<notin> set (map profile_id (profiles db)) \<and>
   posts db' = posts db \<and> friendships db' = friendships db"
  by (auto simp: insert_auth_user_def handle_new_user_def split: if_splits option.splits)

theorem registration_creates_profile_witness:
  "insert_auth_user empty_db 7
     \<lparr>uid = alice, email = Some ''alice@example.com'',
      raw_user_meta_data = Some [(''full_name'', Some ''Alice'')]\<rparr>
   = Inr \<lparr>auth_users = [\<lparr>uid = alice, email = Some ''alice@example.com'',
                          raw_user_meta_data = Some [(''full_name'', Some ''Alice'')]\<rparr>],
          profiles = [\<lparr>profile_id = alice, username = ''alice@example.com'',
                       full_name = Some ''Alice'', avatar_url = None, bio = None,
                       profile_created_at = Some 7, profile_updated_at = Some 7\<rparr>],
          posts = [], friendships = []\<rparr> \<and>
   (\<exists>p. profiles \<lparr>auth_users = [\<lparr>uid = alice, email = Some ''alice@example.com'',
                          raw_user_meta_data = Some [(''full_name'', Some ''Alice'')]\<rparr>],
          profiles = [\<lparr>profile_id = alice, username = ''alice@example.com'',
                       full_name = Some ''Alice'', avatar_url = None, bio = None,
                       profile_created_at = Some 7, profile_updated_at = Some 7\<rparr>],
          posts = [], friendships = []\<rparr> = profiles empty_db @ [p] \<and>
        profile_id p = alice \<and> username p = ''alice@example.com'' \<and>
        full_name p = Some ''Alice'')"
proof -
  have run: "insert_auth_user empty_db 7
     \<lparr>uid = alice, email = Some ''alice@example.com'',
      raw_user_meta_data = Some [(''full_name'', Some ''Alice'')]\<rparr>
   = Inr \<lparr>auth_users = [\<lparr>uid = alice, email = Some ''alice@example.com'',
                          raw_user_meta_data = Some [(''full_name'', Some ''Alice'')]\<rparr>],
          profiles = [\<lparr>profile_id = alice, username = ''alice@example.com'',
                       full_name = Some ''Alice'', avatar_url = None, bio = None,
                       profile_created_at = Some 7, profile_updated_at = Some 7\<rparr>],
          posts = [], friendships = []\<rparr>"
    by (simp add: insert_auth_user_def handle_new_user_def empty_db_def json_get_text_def)
  from registration_creates_profile [OF run] run show ?thesis
    by (auto simp: json_get_text_def)
qed

text \<open>
  Identity creation succeeds exactly when the identity's id is new, it has an email, and
  neither its id nor its email is taken by a profile; otherwise the statement fails as a
  whole.
\<close>

lemma insert_auth_user_succeeds_iff:
  "(\<exists>db'. insert_auth_user db now new = Inr db') \<longleftrightarrow>
     uid new \<notin> set (map uid (auth_users db)) \<and>
     uid new \<notin> set (map profile_id (profiles db)) \<and>
     (\<exists>e. email new = Some e \<and> e \<notin> set (map username (profiles db)))"
  by (auto simp: insert_auth_user_def handle_new_user_def split: option.splits)

section \<open>Properties of the auth store\<close>

lemma user_awaited:
  "user (awaited s a) = (case answer_notified a of None \<Rightarrow> user s | Some u \<Rightarrow> u)"
  by (simp add: awaited_def onAuthStateChange_def split: option.split)

lemma verificationSent_awaited: "verificationSent (awaited s a) = verificationSent s"
  by (simp add: awaited_def onAuthStateChange_def split: option.split)

lemma awaited_not_notified: "answer_notified a = None \<Longrightarrow> awaited s a = s"
  by (simp add: awaited_def)

lemma onAuthStateChange_user:
  "user (onAuthStateChange s session_user) = session_user \<and>
   \<not> loading (onAuthStateChange s session_user) \<and>
   verificationSent (onAuthStateChange s session_user) = verificationSent s"
  by (simp add: onAuthStateChange_def)

text \<open>
  C9, as stated, fails when the answer to the registration opens a session: the
  identity client hands the session to the store's listener while \<open>signUp\<close> is
  awaiting, and the signed-out store holds the new user when \<open>signUp\<close> returns without
  error. Nor does the store ask for a verification before a login: after a registration
  that opened no session, a \<open>signIn\<close> the service answers with a session stores its
  user, with no \<open>verifyOtp\<close> in between.
\<close>

theorem signUp_with_session_signs_in:
  "user initial_store = None \<and>
   answer_error (session_answer (new_user alice ''alice@example.com'')) = None \<and>
   snd (signUp initial_store (utf16 ''alice@example.com'') (utf16 ''Abc123!@'')
          (session_answer (new_user alice ''alice@example.com''))) = None \<and>
   user (fst (signUp initial_store (utf16 ''alice@example.com'') (utf16 ''Abc123!@'')
          (session_answer (new_user alice ''alice@example.com''))))
     = Some (new_user alice ''alice@example.com'') \<and>
   verificationSent (fst (signUp initial_store (utf16 ''alice@example.com'') (utf16 ''Abc123!@'')
          (session_answer (new_user alice ''alice@example.com'')))) \<and>
   user (fst (signIn
          (fst (signUp initial_store (utf16 ''alice@example.com'') (utf16 ''Abc123!@'')
                  pending_answer))
          (utf16 ''alice@example.com'') (utf16 ''Abc123!@'') False
          (session_answer (new_user alice ''alice@example.com''))))
     = Some (new_user alice ''alice@example.com'')"
  by (simp add: signUp_def signIn_def awaited_def onAuthStateChange_def session_answer_def
      pending_answer_def initial_store_def)

text \<open>
  C9, amended. A successful \<open>signUp\<close> whose answer opens no session does not sign the
  user in: it leaves \<open>user\<close> (and \<open>loading\<close>) as they were, so \<open>user\<close> is still null
  for a signed-out client, and sets \<open>verificationSent\<close>. Every successful \<open>signUp\<close>
  sets \<open>verificationSent\<close>, and the \<open>user\<close> it leaves is the one the listener was
  given during the call, if it was called. A \<open>signUp\<close> answered with an error throws
  that error and leaves \<open>verificationSent\<close> as it was. Whether a login needs a
  verification first is not the store's decision: \<open>signIn\<close> does the same whatever
  \<open>verificationSent\<close> holds.
\<close>

theorem signUp_user_after:
  "(answer_error a = None \<and> answer_notified a = None \<longrightarrow>
      signUp s e pw a = (s\<lparr>verificationSent := True\<rparr>, None)) \<and>
   (answer_error a = None \<and> answer_notified a = None \<and> user s = None \<longrightarrow>
      user (fst (signUp s e pw a)) = None) \<and>
   (answer_error a = None \<longrightarrow>
      snd (signUp s e pw a) = None \<and> verificationSent (fst (signUp s e pw a)) \<and>
      user (fst (signUp s e pw a))
        = (case answer_notified a of None \<Rightarrow> user s | Some u \<Rightarrow> u)) \<and>
   (answer_error a = Some m \<longrightarrow>
      snd (signUp s e pw a) = Some m \<and>
      verificationSent (fst (signUp s e pw a)) = verificationSent s) \<and>
   fst (signIn (s\<lparr>verificationSent := v\<rparr>) e pw r b)
     = (fst (signIn s e pw r b))\<lparr>verificationSent := v\<rparr> \<and>
   snd (signIn (s\<lparr>verificationSent := v\<rparr>) e pw r b) = snd (signIn s e pw r b)"
proof (intro conjI impI)
  assume "answer_error a = None \<and> answer_notified a = None"
  then show "signUp s e pw a = (s\<lparr>verificationSent := True\<rparr>, None)"
    by (simp add: signUp_def awaited_not_notified)
next
  assume "answer_error a = None \<and> answer_notified a = None \<and> user s = None"
  then show "user (fst (signUp s e pw a)) = None"
    by (simp add: signUp_def awaited_not_notified)
next
  assume ok: "answer_error a = None"
  then show "snd (signUp s e pw a) = None" by (simp add: signUp_def)
  from ok show "verificationSent (fst (signUp s e pw a))" by (simp add: signUp_def)
  from ok show "user (fst (signUp s e pw a))
        = (case answer_notified a of None \<Rightarrow> user s | Some u \<Rightarrow> u)"
    by (simp add: signUp_def user_awaited)
next
  assume err: "answer_error a = Some m"
  then show "snd (signUp s e pw a) = Some m" by (simp add: signUp_def)
  from err show "verificationSent (fst (signUp s e pw a)) = verificationSent s"
    by (simp add: signUp_def verificationSent_awaited)
next
  show "fst (signIn (s\<lparr>verificationSent := v\<rparr>) e pw r b)
     = (fst (signIn s e pw r b))\<lparr>verificationSent := v\<rparr>"
    by (simp add: signIn_def awaited_def onAuthStateChange_def split: option.split)
  show "snd (signIn (s\<lparr>verificationSent := v\<rparr>) e pw r b) = snd (signIn s e pw r b)"
    by (simp add: signIn_def split: option.split)
qed

theorem signUp_user_after_witness:
  "answer_error pending_answer = None \<and> answer_notified pending_answer = None \<and>
   user initial_store = None \<and>
   signUp initial_store (utf16 ''alice@example.com'') (utf16 ''Abc123!@'') pending_answer
     = (initial_store\<lparr>verificationSent := True\<rparr>, None) \<and>
   user (fst (signUp initial_store (utf16 ''alice@example.com'') (utf16 ''Abc123!@'')
                pending_answer)) = None \<and>
   verificationSent (fst (signUp initial_store (utf16 ''alice@example.com'')
                (utf16 ''Abc123!@'') pending_answer))"
proof -
  have h: "answer_error pending_answer = None" "answer_notified pending_answer = None"
    "user initial_store = None"
    by (simp_all add: pending_answer_def initial_store_def)
  from signUp_user_after [of pending_answer initial_store "utf16 ''alice@example.com''"
      "utf16 ''Abc123!@''"] h
  show ?thesis by blast
qed

text \<open>
  \<open>verifyOtp\<close> is an action of its own; like \<open>signIn\<close> it writes nothing itself, and
  the \<open>user\<close> it leaves is the one the listener was given, if it was called.
\<close>

lemma verifyOtp_user:
  "user (fst (verifyOtp s e token a)) = (case answer_notified a of None \<Rightarrow> user s | Some u \<Rightarrow> u)"
  by (simp add: verifyOtp_def user_awaited split: option.split)

section \<open>Properties of the feed\<close>






text \<open>Ordering neither drops nor invents a row.\<close>

lemma mset_insert_ordered: "mset (insert_ordered a p ps) = add_mset p (mset ps)"
  by (induction ps) auto

lemma mset_order_by_created_at: "mset (order_by_created_at a ps) = mset ps"
  unfolding order_by_created_at_def
  by (induction ps) (auto simp: mset_insert_ordered)







text \<open>The client displays the rows of an answer in the order the answer has them.\<close>

lemma setPosts_from_keeps_order:
  "resp_error r = None \<Longrightarrow> resp_data r = Some d \<Longrightarrow> home_posts (setPosts_from s r) = d"
  by (simp add: setPosts_from_def)

lemmas fetch_defs = fetchPosts_def setPosts_from_def posts_query_def select_posts_def
  posts_select_using_def select_friendships_def order_by_created_at_def to_feed_post_def
  feed_db_def undated_feed_db_def undated_post_def public_post_def seed_db_def
  friends_post_def alice_def bob_def carol_def sql_exists_def holds_def

lemma feed_db_fetched:
  "map feed_id (home_posts (fetchPosts initial_home feed_db (Some alice) None)) = [201, 202, 200]"
  "map feed_created_at (home_posts (fetchPosts initial_home feed_db (Some alice) None))
     = [Some 30, Some 20, Some 10]"
  by (simp_all add: fetch_defs)







section \<open>Properties of the auth form\<close>

lemma try_block_refused:
  "mode s = Login \<Longrightarrow> form_email s = utf16 ''a@b.co'' \<Longrightarrow> password s = utf16 ''Abc123!@'' \<Longrightarrow>
   try_block sample_email_pattern s (Some e) = Inl e"
  by (simp add: try_block_def safeParse_def emailSchema_def passwordSchema_def utf16_def
      class_defs sample_email_pattern_def Let_def)

lemma try_block_keeps_counter:
  "try_block p s e = Inr s' \<Longrightarrow> attempts s' = attempts s \<and> lockoutUntil s' = lockoutUntil s"
  by (auto simp: try_block_def split: option.splits auth_mode.splits if_splits)

text \<open>
  A submission while the clock is before the lockout timestamp only shows the countdown:
  nothing else of the form changes, and neither validation nor the store is reached.
\<close>

lemma handleSubmit_locked:
  "lockout_active s (check_time ev) = Some l \<Longrightarrow>
   handleSubmit p s ev =
     s\<lparr>error := Some (Retry_in_seconds (ceil_seconds (l - message_time ev))),
       form_success := None\<rparr>"
  by (simp add: handleSubmit_def Let_def)

text \<open>
  A failed submission outside a lockout increments the counter; the failure that takes
  the counter to 5 or beyond sets the lockout timestamp 300000 ms after the clock.
\<close>

lemma handleSubmit_failure:
  assumes "lockout_active s (check_time ev) = None"
    and "try_block p (s\<lparr>error := None, form_success := None, form_loading := True\<rparr>)
           (service_error ev) = Inl m"
  shows "attempts (handleSubmit p s ev) = attempts s + 1"
    and "attempts s \<ge> 4 \<Longrightarrow> lockoutUntil (handleSubmit p s ev) = Some (catch_time ev + 300000)"
    and "attempts s \<ge> 4 \<Longrightarrow> error (handleSubmit p s ev) =
           Some (Plain ''Too many attempts. Please try again in 5 minutes.'')"
    and "attempts s < 4 \<Longrightarrow> lockoutUntil (handleSubmit p s ev) = lockoutUntil s"
    and "attempts s < 4 \<Longrightarrow> error (handleSubmit p s ev) = Some (Plain m)"
  using assms by (simp_all add: handleSubmit_def Let_def)

lemma handleSubmit_success:
  assumes "lockout_active s (check_time ev) = None"
    and "try_block p (s\<lparr>error := None, form_success := None, form_loading := True\<rparr>)
           (service_error ev) = Inr s'"
  shows "attempts (handleSubmit p s ev) = 0 \<and>
         lockoutUntil (handleSubmit p s ev) = lockoutUntil s"
  using assms try_block_keeps_counter [OF assms(2)] by (simp add: handleSubmit_def Let_def)

text \<open>
  The effect never resets the counter in time: it runs when the lockout timestamp is
  set, not when it elapses. A failed submission after the lockout has elapsed finds the
  counter where the lockout left it and starts a new lockout at once.
\<close>

lemma expired_lockout_keeps_counter:
  assumes "lockoutUntil s = Some l" and "l \<le> check_time ev"
    and "try_block p (s\<lparr>error := None, form_success := None, form_loading := True\<rparr>)
           (service_error ev) = Inl m"
    and "attempts s \<ge> 4" and "effect_time ev \<le> catch_time ev + 300000"
  shows "attempts (submit p s ev) = attempts s + 1 \<and>
         lockoutUntil (submit p s ev) = Some (catch_time ev + 300000) \<and>
         error (submit p s ev) = Some (Plain ''Too many attempts. Please try again in 5 minutes.'')"
  using assms
  by (simp add: submit_def sets_lockoutUntil_def lockout_active_def handleSubmit_def
      lockout_effect_def Let_def)

lemma submit_refused_filled:
  assumes "mode s = Login" "form_email s = utf16 ''a@b.co''" "password s = utf16 ''Abc123!@''"
    and "lockout_active s t = None"
  shows "submit sample_email_pattern s (refused_at t) =
     (if attempts s \<ge> 4
      then s\<lparr>attempts := attempts s + 1, lockoutUntil := Some (t + 300000),
             error := Some (Plain ''Too many attempts. Please try again in 5 minutes.''),
             form_success := None, form_loading := False\<rparr>
      else s\<lparr>attempts := attempts s + 1, error := Some (Plain ''Invalid login credentials''),
             form_success := None, form_loading := False\<rparr>)"
  using assms
  by (simp add: submit_def sets_lockoutUntil_def handleSubmit_def lockout_effect_def
      refused_at_def Let_def lockout_active_def try_block_refused)

lemma submit_locked:
  "lockout_active s t = Some l \<Longrightarrow>
   submit p s (refused_at t) =
     s\<lparr>error := Some (Retry_in_seconds (ceil_seconds (l - t))), form_success := None\<rparr>"
  by (simp add: submit_def sets_lockoutUntil_def handleSubmit_locked refused_at_def)

text \<open>
  C2. Five refused logins at 1 s to 5 s take the counter to 5 and set the lockout until
  305 s; a submission at 100 s is answered with the countdown only. At 400 s the lockout
  has elapsed, yet the counter is still 5: one more refused login is not shown its own
  error but counted as the sixth failure, and locks the form until 700 s.
\<close>

theorem lockout_expiry_keeps_counter:
  "attempts (submits sample_email_pattern filled_form five_failures) = 5 \<and>
   lockoutUntil (submits sample_email_pattern filled_form five_failures) = Some 305000 \<and>
   error (submits sample_email_pattern filled_form (five_failures @ [refused_at 100000]))
     = Some (Retry_in_seconds 205) \<and>
   attempts (submits sample_email_pattern filled_form (five_failures @ [refused_at 100000])) = 5 \<and>
   lockout_active (submits sample_email_pattern filled_form five_failures) 400000 = None \<and>
   attempts (submits sample_email_pattern filled_form (five_failures @ [refused_at 400000])) = 6 \<and>
   lockoutUntil (submits sample_email_pattern filled_form (five_failures @ [refused_at 400000]))
     = Some 700000 \<and>
   error (submits sample_email_pattern filled_form (five_failures @ [refused_at 400000]))
     = Some (Plain ''Too many attempts. Please try again in 5 minutes.'')"
  by (simp add: five_failures_def filled_form_def initial_form_def submit_refused_filled
      submit_locked lockout_active_def ceil_seconds_def)

end
